theory Spec2Isabelle
  imports Main "HOL-Library.AList"
begin

unbundle bit_operations_syntax

section \<open>Python values used by \<open>rmm.py\<close>\<close>

text \<open>
  Exceptions are values. \<open>KeyError\<close> is what \<open>del d[k]\<close> raises for a missing key,
  \<open>AssertionError\<close> is what the dict of a manager raises when a key already present
  is written, \<open>RuntimeError\<close> and \<open>ModuleNotFoundError\<close> are raised by the module
  itself, and \<open>AllocationError\<close> stands for whatever the constructor of
  \<open>librmm.DeviceBuffer\<close> raises when the pool cannot serve a request.
\<close>

datatype py_error =
    KeyError int
  | AssertionError int
  | RuntimeError string
  | ModuleNotFoundError string
  | AllocationError string

text \<open>\<open>librmm.DeviceBuffer\<close>: the attributes \<open>ptr\<close> and \<open>size\<close> read by the module.\<close>

record device_buffer =
  buf_ptr :: int
  buf_size :: int

text \<open>
  \<open>self.allocations\<close> is a Python dict from handles to buffers, kept in insertion
  order: an association list without duplicate keys. The manager inherits it from
  numba's \<open>HostOnlyCUDAMemoryManager\<close>, where it is a \<open>UniqueDict\<close>: writing a key that
  is already present raises \<open>AssertionError\<close> and leaves the entry as it is, and
  writing a new key appends it.
\<close>

type_synonym allocations_dict = "(int \<times> device_buffer) list"

definition dict_keys :: "allocations_dict \<Rightarrow> int list" where
  "dict_keys d = map fst d"

definition dict_contains :: "allocations_dict \<Rightarrow> int \<Rightarrow> bool" where
  "dict_contains d k = (k \<in> set (dict_keys d))"

definition dict_setitem ::
  "allocations_dict \<Rightarrow> int \<Rightarrow> device_buffer \<Rightarrow> py_error + allocations_dict" where
  "dict_setitem d k v =
     (if dict_contains d k then Inl (AssertionError k) else Inr (d @ [(k, v)]))"

definition dict_delitem :: "allocations_dict \<Rightarrow> int \<Rightarrow> py_error + allocations_dict" where
  "dict_delitem d k =
     (if dict_contains d k then Inr (AList.delete k d) else Inl (KeyError k))"

section \<open>The interpreter state\<close>

text \<open>
  The dict of a manager is shared between the manager and every finalizer made for it,
  so dicts live in a store and are named by a reference. The calls made into
  \<open>rmm._lib\<close> are recorded in the order they are made, and numba keeps the memory
  manager class installed by \<open>cuda.set_memory_manager\<close>.
\<close>

type_synonym ref = nat

datatype librmm_call =
    Call_rmm_initialize int int "int list" bool
  | Call_rmm_finalize
  | Call_DeviceBuffer int "int option"

datatype manager_class = NumbaDefaultManager | RMMNumbaManager

record world =
  store :: "ref \<Rightarrow> allocations_dict"
  librmm_calls :: "librmm_call list"
  cuda_memory_manager :: manager_class

section \<open>\<open>_make_finalizer\<close>\<close>

text \<open>
  The closure returned by \<open>_make_finalizer(handle, allocations)\<close> binds the handle and
  the reference to the dict; it is the pair of the two.
\<close>

record finalizer_closure =
  fin_handle :: int
  fin_allocations :: ref

definition make_finalizer :: "int \<Rightarrow> ref \<Rightarrow> finalizer_closure" where
  "make_finalizer handle allocations =
     \<lparr>fin_handle = handle, fin_allocations = allocations\<rparr>"

text \<open>
  Calling the closure: \<open>if allocations: del allocations[handle]\<close>. The result is the
  exception raised, if any, and the state the call leaves behind.
\<close>

definition finalizer :: "finalizer_closure \<Rightarrow> world \<Rightarrow> (py_error + unit) \<times> world" where
  "finalizer f w =
     (let allocations = store w (fin_allocations f) in
      if allocations \<noteq> [] then
        (case dict_delitem allocations (fin_handle f) of
           Inl e \<Rightarrow> (Inl e, w)
         | Inr d \<Rightarrow> (Inr (), w\<lparr>store := (store w)(fin_allocations f := d)\<rparr>))
      else (Inr (), w))"

section \<open>\<open>RMMNumbaManager\<close>\<close>

text \<open>
  What the environment answers to the calls the module makes: the outcome of
  constructing a \<open>DeviceBuffer\<close> (which may depend on the calls made before), the
  current CUDA context, the device identity, the bytes the driver writes into an IPC
  handle, the allocation offset the pool reports, the current device id of cupy, the
  statuses of \<open>rmm_initialize\<close> and \<open>rmm_finalize\<close>, and whether the imports of numba
  and cupy succeeded. The constructor of \<open>DeviceBuffer\<close> either raises or returns a
  buffer; the other calls are taken to return.
\<close>

record device_identity =
  pci_domain_id :: int
  pci_bus_id :: int
  pci_device_id :: int

record env =
  DeviceBuffer :: "librmm_call list \<Rightarrow> int \<Rightarrow> int option \<Rightarrow> py_error + device_buffer"
  rmm_initialize :: "librmm_call list \<Rightarrow> int \<Rightarrow> int \<Rightarrow> int list \<Rightarrow> bool \<Rightarrow> int"
  rmm_finalize :: "librmm_call list \<Rightarrow> int"
  rmm_getallocationoffset :: "int \<Rightarrow> int \<Rightarrow> int"
  current_context :: nat
  get_device_identity :: device_identity
  cuIpcGetMemHandle :: "int \<Rightarrow> nat \<Rightarrow> int"
  get_device_id :: int
  numba_available :: bool
  cupy_available :: bool

record manager =
  mgr_allocations :: ref
  mgr_logging :: bool
  mgr_initialized :: bool

text \<open>\<open>cuda.MemoryPointer(ctx, ptr, nbytes, finalizer=finalizer)\<close>\<close>

record memory_pointer =
  mp_context :: nat
  mp_pointer :: int
  mp_size :: int
  mp_finalizer :: finalizer_closure

text \<open>\<open>ctypes.c_uint64(n).value\<close>: the integer reduced to 64 bits.\<close>

definition c_uint64 :: "int \<Rightarrow> int" where
  "c_uint64 n = n mod 2 ^ 64"

text \<open>
  \<open>memalloc\<close>: the buffer is constructed first, then \<open>self.allocations[ptr.value] = buf\<close>
  is written, then the finalizer and the pointer are made. When the constructor
  raises, or when the write raises because the handle is already a key, the error
  leaves \<open>memalloc\<close> and no pointer is returned.
\<close>

definition memalloc ::
  "env \<Rightarrow> manager \<Rightarrow> int \<Rightarrow> int \<Rightarrow> world \<Rightarrow> (py_error + memory_pointer) \<times> world" where
  "memalloc E self nbytes stream w =
     (let w1 = w\<lparr>librmm_calls := librmm_calls w @ [Call_DeviceBuffer nbytes (Some stream)]\<rparr> in
      case DeviceBuffer E (librmm_calls w) nbytes (Some stream) of
        Inl e \<Rightarrow> (Inl e, w1)
      | Inr buf \<Rightarrow>
          (let ctx = current_context E;
               ptr = c_uint64 (buf_ptr buf);
               allocations = mgr_allocations self
           in case dict_setitem (store w1 allocations) ptr buf of
                Inl e \<Rightarrow> (Inl e, w1)
              | Inr d \<Rightarrow>
                  (let w2 = w1\<lparr>store := (store w1)(allocations := d)\<rparr>;
                       fin = make_finalizer ptr allocations;
                       mem = \<lparr>mp_context = ctx, mp_pointer = ptr, mp_size = nbytes,
                              mp_finalizer = fin\<rparr>
                   in (Inr mem, w2))))"

text \<open>
  \<open>reset\<close> calls the method of numba's \<open>HostOnlyCUDAMemoryManager\<close>, which clears
  \<open>self.allocations\<close> in place (the comment in \<open>reset\<close> says so): the dict object stays
  the one the finalizers hold.
\<close>

definition reset :: "manager \<Rightarrow> world \<Rightarrow> world" where
  "reset self w = w\<lparr>store := (store w)(mgr_allocations self := [])\<rparr>"

definition registry :: "manager \<Rightarrow> world \<Rightarrow> allocations_dict" where
  "registry self w = store w (mgr_allocations self)"

section \<open>Initialisation, finalisation, reinitialisation\<close>

text \<open>The members of \<open>rmm_allocation_mode\<close>, an \<open>IntEnum\<close>.\<close>

definition CudaDefaultAllocation :: int where
  "CudaDefaultAllocation = 0"

definition PoolAllocation :: int where
  "PoolAllocation = 1"

definition CudaManagedMemory :: int where
  "CudaManagedMemory = 2"

text \<open>
  The \<open>devices\<close> argument is \<open>None\<close>, an \<open>int\<close>, or anything else, which the
  docstring gives as a list of ints.
\<close>

datatype devices_arg = Devices_None | Devices_int int | Devices_list "int list"

text \<open>
  \<open>_initialize\<close>: \<open>initial_pool_size\<close> is \<open>None\<close> or an int. The value returned is the
  one \<open>librmm.rmm_initialize\<close> returns. The last branch of the size is reached with an
  int only, \<open>None\<close> being taken by the branches before it.
\<close>

definition initialize ::
  "env \<Rightarrow> bool \<Rightarrow> bool \<Rightarrow> int option \<Rightarrow> devices_arg \<Rightarrow> bool \<Rightarrow> world \<Rightarrow> int \<times> world" where
  "initialize E pool_allocator managed_memory initial_pool_size devices logging w =
     (let allocation_mode = 0;
          allocation_mode =
            (if pool_allocator then allocation_mode OR PoolAllocation else allocation_mode);
          allocation_mode =
            (if managed_memory then allocation_mode OR CudaManagedMemory else allocation_mode);
          initial_pool_size =
            (if \<not> pool_allocator then 0
             else if pool_allocator \<and> initial_pool_size = None then 0
             else if pool_allocator \<and> initial_pool_size = Some 0 then 1
             else the initial_pool_size);
          devices =
            (case devices of
               Devices_None \<Rightarrow> [0]
             | Devices_int d \<Rightarrow> [d]
             | Devices_list ds \<Rightarrow> ds)
      in (rmm_initialize E (librmm_calls w) allocation_mode initial_pool_size devices logging,
          w\<lparr>librmm_calls := librmm_calls w @
               [Call_rmm_initialize allocation_mode initial_pool_size devices logging]\<rparr>))"

definition finalize :: "env \<Rightarrow> world \<Rightarrow> int \<times> world" where
  "finalize E w =
     (rmm_finalize E (librmm_calls w),
      w\<lparr>librmm_calls := librmm_calls w @ [Call_rmm_finalize]\<rparr>)"

definition reinitialize ::
  "env \<Rightarrow> bool \<Rightarrow> bool \<Rightarrow> int option \<Rightarrow> devices_arg \<Rightarrow> bool \<Rightarrow> world \<Rightarrow> int \<times> world" where
  "reinitialize E pool_allocator managed_memory initial_pool_size devices logging w =
     (let (r, w1) = finalize E w
      in initialize E pool_allocator managed_memory initial_pool_size devices logging w1)"

section \<open>IPC export\<close>

text \<open>
  The attributes of \<open>memory\<close> that \<open>get_ipc_handle\<close> reads: \<open>memory.owner.handle\<close>,
  \<open>memory.device_ctypes_pointer.value\<close> and \<open>memory.size\<close>.
\<close>

record device_memory =
  mem_owner_handle :: int
  mem_device_ctypes_pointer :: int
  mem_size :: int

text \<open>numba's \<open>IpcHandle(base, handle, size, source_info, offset)\<close>\<close>

record ipc_handle =
  ipc_base :: device_memory
  ipc_handle_bytes :: "int list"
  ipc_size :: int
  ipc_source_info :: device_identity
  ipc_offset :: int

text \<open>
  \<open>(ctypes.c_byte * 64)()\<close> is an array of 64 zero bytes, and the driver call writes
  into it in place: the array keeps its length, and byte \<open>i\<close> becomes what the driver
  puts there for the owner's handle.
\<close>

definition get_ipc_handle :: "env \<Rightarrow> manager \<Rightarrow> device_memory \<Rightarrow> int \<Rightarrow> ipc_handle" where
  "get_ipc_handle E self memory stream =
     (let ipchandle = replicate 64 (0::int);
          ipchandle = map (cuIpcGetMemHandle E (mem_owner_handle memory)) [0..<length ipchandle];
          source_info = get_device_identity E;
          ptr = mem_device_ctypes_pointer memory;
          offset = rmm_getallocationoffset E ptr stream
      in \<lparr>ipc_base = memory, ipc_handle_bytes = ipchandle, ipc_size = mem_size memory,
          ipc_source_info = source_info, ipc_offset = offset\<rparr>)"

text \<open>
  Modelled from the spec: \<open>librmm.rmm_getallocationoffset\<close> is not part of the source
  file. The spec gives its result as the byte distance of the pointer from the start
  address of the pool block that owns it (sub-pointer minus block start address).
  \<open>block_start\<close> maps a device pointer to the start address of its block.
\<close>

definition allocation_offset :: "(int \<Rightarrow> int) \<Rightarrow> int \<Rightarrow> int \<Rightarrow> int" where
  "allocation_offset block_start ptr stream = ptr - block_start ptr"

section \<open>Optional integrations\<close>

definition use_rmm_for_numba :: "env \<Rightarrow> world \<Rightarrow> (py_error + unit) \<times> world" where
  "use_rmm_for_numba E w =
     (if numba_available E then (Inr (), w\<lparr>cuda_memory_manager := RMMNumbaManager\<rparr>)
      else (Inl (RuntimeError ''Numba is not available''), w))"

text \<open>\<open>cupy.cuda.UnownedMemory\<close> and \<open>cupy.cuda.memory.MemoryPointer(mem, offset)\<close>\<close>

record unowned_memory =
  um_ptr :: int
  um_size :: int
  um_owner :: device_buffer
  um_device_id :: int

record cupy_memory_pointer =
  cmp_mem :: unowned_memory
  cmp_offset :: int

definition no_module_cupy :: string where
  "no_module_cupy = ''No module named '' @ [CHR 0x27] @ ''cupy'' @ [CHR 0x27]"

definition rmm_cupy_allocator ::
  "env \<Rightarrow> int \<Rightarrow> world \<Rightarrow> (py_error + cupy_memory_pointer) \<times> world" where
  "rmm_cupy_allocator E nbytes w =
     (if \<not> cupy_available E then (Inl (ModuleNotFoundError no_module_cupy), w)
      else
        (let w1 = w\<lparr>librmm_calls := librmm_calls w @ [Call_DeviceBuffer nbytes None]\<rparr> in
         case DeviceBuffer E (librmm_calls w) nbytes None of
           Inl e \<Rightarrow> (Inl e, w1)
         | Inr buf \<Rightarrow>
             (let dev_id = (if buf_ptr buf \<noteq> 0 then - 1 else get_device_id E);
                  mem = \<lparr>um_ptr = buf_ptr buf, um_size = buf_size buf, um_owner = buf,
                         um_device_id = dev_id\<rparr>;
                  ptr = \<lparr>cmp_mem = mem, cmp_offset = 0\<rparr>
              in (Inr ptr, w1))))"

section \<open>Runs of a manager\<close>

text \<open>
  What the host framework does with one manager: it allocates, it calls the finalizer
  of a handle, it resets the manager. An exception ends the operation that raised it
  and leaves the state as it is at that point.
\<close>

datatype event = Ev_memalloc int int | Ev_finalizer int | Ev_reset

fun exec_event :: "env \<Rightarrow> manager \<Rightarrow> world \<Rightarrow> event \<Rightarrow> world" where
  "exec_event E self w (Ev_memalloc nbytes stream) = snd (memalloc E self nbytes stream w)"
| "exec_event E self w (Ev_finalizer h) =
     snd (finalizer (make_finalizer h (mgr_allocations self)) w)"
| "exec_event E self w Ev_reset = reset self w"

fun run :: "env \<Rightarrow> manager \<Rightarrow> world \<Rightarrow> event list \<Rightarrow> world" where
  "run E self w [] = w"
| "run E self w (e # es) = run E self (exec_event E self w e) es"

text \<open>
  The handles allocated and not yet released, in the spec's words: a successful
  allocation adds the handle of the pointer it returns, a finalizer call releases its
  handle, a reset releases every handle.
\<close>

fun outstanding_step :: "env \<Rightarrow> manager \<Rightarrow> world \<Rightarrow> int set \<Rightarrow> event \<Rightarrow> int set" where
  "outstanding_step E self w L (Ev_memalloc nbytes stream) =
     (case fst (memalloc E self nbytes stream w) of
        Inl e \<Rightarrow> L
      | Inr mem \<Rightarrow> insert (mp_pointer mem) L)"
| "outstanding_step E self w L (Ev_finalizer h) = L - {h}"
| "outstanding_step E self w L Ev_reset = {}"

fun outstanding :: "env \<Rightarrow> manager \<Rightarrow> world \<Rightarrow> int set \<Rightarrow> event list \<Rightarrow> int set" where
  "outstanding E self w L [] = L"
| "outstanding E self w L (e # es) =
     outstanding E self (exec_event E self w e) (outstanding_step E self w L e) es"

section \<open>Concrete states and environments\<close>

definition buf_a :: device_buffer where
  "buf_a = \<lparr>buf_ptr = 4096, buf_size = 256\<rparr>"

definition buf_b :: device_buffer where
  "buf_b = \<lparr>buf_ptr = 8192, buf_size = 512\<rparr>"

definition empty_store :: "ref \<Rightarrow> allocations_dict" where
  "empty_store r = []"

definition world0 :: world where
  "world0 = \<lparr>store = empty_store, librmm_calls = [], cuda_memory_manager = NumbaDefaultManager\<rparr>"

definition manager0 :: manager where
  "manager0 = \<lparr>mgr_allocations = 0, mgr_logging = False, mgr_initialized = False\<rparr>"

text \<open>A pool of 10000 bytes whose single block starts at address 4096.\<close>

definition pool_DeviceBuffer ::
  "librmm_call list \<Rightarrow> int \<Rightarrow> int option \<Rightarrow> py_error + device_buffer" where
  "pool_DeviceBuffer calls nbytes stream =
     (if nbytes \<le> 10000
      then Inr \<lparr>buf_ptr = 4096 + 4096 * int (length calls), buf_size = nbytes\<rparr>
      else Inl (AllocationError ''out of memory''))"

definition pool_block_start :: "int \<Rightarrow> int" where
  "pool_block_start ptr = 4096"

definition driver_bytes :: "int \<Rightarrow> nat \<Rightarrow> int" where
  "driver_bytes h i = (h + int i) mod 128"

definition rmm_initialize_ok :: "librmm_call list \<Rightarrow> int \<Rightarrow> int \<Rightarrow> int list \<Rightarrow> bool \<Rightarrow> int" where
  "rmm_initialize_ok calls allocation_mode initial_pool_size devices logging = 0"

definition rmm_finalize_ok :: "librmm_call list \<Rightarrow> int" where
  "rmm_finalize_ok calls = 0"

definition env0 :: env where
  "env0 = \<lparr>DeviceBuffer = pool_DeviceBuffer,
           rmm_initialize = rmm_initialize_ok,
           rmm_finalize = rmm_finalize_ok,
           rmm_getallocationoffset = allocation_offset pool_block_start,
           current_context = 0,
           get_device_identity = \<lparr>pci_domain_id = 0, pci_bus_id = 1, pci_device_id = 0\<rparr>,
           cuIpcGetMemHandle = driver_bytes,
           get_device_id = 0,
           numba_available = True,
           cupy_available = True\<rparr>"

definition null_DeviceBuffer ::
  "librmm_call list \<Rightarrow> int \<Rightarrow> int option \<Rightarrow> py_error + device_buffer" where
  "null_DeviceBuffer calls nbytes stream = Inr \<lparr>buf_ptr = 0, buf_size = nbytes\<rparr>"

definition env_null :: env where
  "env_null = env0\<lparr>DeviceBuffer := null_DeviceBuffer, get_device_id := 3\<rparr>"

definition env_bare :: env where
  "env_bare = env0\<lparr>numba_available := False, cupy_available := False\<rparr>"

definition world_two :: world where
  "world_two = world0\<lparr>store := empty_store(0 := [(4096, buf_a), (8192, buf_b)])\<rparr>"

section \<open>Facts about the dict operations\<close>

lemma dict_contains_append:
  "dict_contains (d @ [(k, v)]) k' \<longleftrightarrow> k' = k \<or> dict_contains d k'"
  by (auto simp: dict_contains_def dict_keys_def)

lemma dict_setitem_new:
  "\<not> dict_contains d k \<Longrightarrow> dict_setitem d k v = Inr (d @ [(k, v)])"
  by (simp add: dict_setitem_def)

lemma dict_setitem_present:
  "dict_contains d k \<Longrightarrow> dict_setitem d k v = Inl (AssertionError k)"
  by (simp add: dict_setitem_def)

lemma dict_delitem_present:
  "dict_contains d k \<Longrightarrow> dict_delitem d k = Inr (AList.delete k d)"
  by (simp add: dict_delitem_def)

lemma dict_delitem_absent:
  "\<not> dict_contains d k \<Longrightarrow> dict_delitem d k = Inl (KeyError k)"
  by (simp add: dict_delitem_def)

lemma dict_contains_delete:
  "dict_contains (AList.delete k d) k' \<longleftrightarrow> k' \<noteq> k \<and> dict_contains d k'"
  by (auto simp: dict_contains_def dict_keys_def AList.delete_eq)

lemma dict_contains_Nil [simp]: "\<not> dict_contains [] k"
  by (simp add: dict_contains_def dict_keys_def)

lemma dict_contains_nonempty: "dict_contains d k \<Longrightarrow> d \<noteq> []"
  by auto

lemma map_of_append_new:
  "\<not> dict_contains d k \<Longrightarrow> map_of (d @ [(k, v)]) k = Some v"
  by (induction d) (auto simp: dict_contains_def dict_keys_def)

lemma c_uint64_id: "0 \<le> n \<Longrightarrow> n < 2 ^ 64 \<Longrightarrow> c_uint64 n = n"
  by (simp add: c_uint64_def)

section \<open>Facts about the finalizer\<close>

lemma make_finalizer_sel [simp]:
  "fin_handle (make_finalizer h r) = h"
  "fin_allocations (make_finalizer h r) = r"
  by (simp_all add: make_finalizer_def)

lemma finalizer_outcome:
  "fst (finalizer f w) =
     (if store w (fin_allocations f) \<noteq> [] \<and>
         \<not> dict_contains (store w (fin_allocations f)) (fin_handle f)
      then Inl (KeyError (fin_handle f)) else Inr ())"
  by (simp add: finalizer_def dict_delitem_def Let_def)

lemma finalizer_empty: "store w (fin_allocations f) = [] \<Longrightarrow> finalizer f w = (Inr (), w)"
  by (simp add: finalizer_def)

lemma finalizer_present:
  "dict_contains (store w (fin_allocations f)) (fin_handle f) \<Longrightarrow>
   finalizer f w =
     (Inr (), w\<lparr>store := (store w)(fin_allocations f :=
                  AList.delete (fin_handle f) (store w (fin_allocations f)))\<rparr>)"
  by (auto simp: finalizer_def dict_delitem_def Let_def)

lemma finalizer_absent:
  "store w (fin_allocations f) \<noteq> [] \<Longrightarrow>
   \<not> dict_contains (store w (fin_allocations f)) (fin_handle f) \<Longrightarrow>
   finalizer f w = (Inl (KeyError (fin_handle f)), w)"
  by (simp add: finalizer_def dict_delitem_def)

lemma finalizer_after_reset:
  "finalizer (make_finalizer h (mgr_allocations self)) (reset self w) = (Inr (), reset self w)"
  by (simp add: finalizer_def make_finalizer_def reset_def)

lemma finalizer_handle_gone:
  "store (snd (finalizer f w)) (fin_allocations f) \<noteq> [] \<Longrightarrow>
   \<not> dict_contains (store (snd (finalizer f w)) (fin_allocations f)) (fin_handle f)"
  by (auto simp: finalizer_def dict_delitem_def Let_def dict_contains_delete split: if_splits)

lemma finalizer_second:
  "finalizer f (snd (finalizer f w)) =
     (if store (snd (finalizer f w)) (fin_allocations f) = [] then Inr ()
      else Inl (KeyError (fin_handle f)), snd (finalizer f w))"
proof (cases "store (snd (finalizer f w)) (fin_allocations f) = []")
  case True
  then show ?thesis by (simp add: finalizer_empty)
next
  case False
  from finalizer_absent[OF False finalizer_handle_gone[OF False]] False
  show ?thesis by simp
qed

section \<open>Facts about \<open>memalloc\<close>\<close>

lemma memalloc_fail:
  "DeviceBuffer E (librmm_calls w) nbytes (Some stream) = Inl e \<Longrightarrow>
   memalloc E self nbytes stream w =
     (Inl e, w\<lparr>librmm_calls := librmm_calls w @ [Call_DeviceBuffer nbytes (Some stream)]\<rparr>)"
  by (simp add: memalloc_def)

lemma memalloc_duplicate:
  "DeviceBuffer E (librmm_calls w) nbytes (Some stream) = Inr buf \<Longrightarrow>
   dict_contains (store w (mgr_allocations self)) (c_uint64 (buf_ptr buf)) \<Longrightarrow>
   memalloc E self nbytes stream w =
     (Inl (AssertionError (c_uint64 (buf_ptr buf))),
      w\<lparr>librmm_calls := librmm_calls w @ [Call_DeviceBuffer nbytes (Some stream)]\<rparr>)"
  by (simp add: memalloc_def Let_def dict_setitem_def)

lemma memalloc_same_pointer_twice:
  "fst (memalloc env_null manager0 0 0 (snd (memalloc env_null manager0 0 0 world0))) =
     Inl (AssertionError 0)
   \<and> registry manager0
        (snd (memalloc env_null manager0 0 0 (snd (memalloc env_null manager0 0 0 world0)))) =
       [(0, \<lparr>buf_ptr = 0, buf_size = 0\<rparr>)]"
  by (simp add: memalloc_def env_null_def null_DeviceBuffer_def world0_def Let_def
      dict_setitem_def dict_contains_def dict_keys_def empty_store_def c_uint64_def
      registry_def manager0_def)

lemma memalloc_ok:
  "DeviceBuffer E (librmm_calls w) nbytes (Some stream) = Inr buf \<Longrightarrow>
   \<not> dict_contains (store w (mgr_allocations self)) (c_uint64 (buf_ptr buf)) \<Longrightarrow>
   memalloc E self nbytes stream w =
     (Inr \<lparr>mp_context = current_context E, mp_pointer = c_uint64 (buf_ptr buf),
           mp_size = nbytes,
           mp_finalizer = make_finalizer (c_uint64 (buf_ptr buf)) (mgr_allocations self)\<rparr>,
      w\<lparr>librmm_calls := librmm_calls w @ [Call_DeviceBuffer nbytes (Some stream)],
        store := (store w)(mgr_allocations self :=
                   store w (mgr_allocations self) @ [(c_uint64 (buf_ptr buf), buf)])\<rparr>)"
  by (simp add: memalloc_def Let_def dict_setitem_def)

lemma memalloc_cases:
  obtains (fail) e where "DeviceBuffer E (librmm_calls w) nbytes (Some stream) = Inl e"
  | (duplicate) buf where "DeviceBuffer E (librmm_calls w) nbytes (Some stream) = Inr buf"
      and "dict_contains (store w (mgr_allocations self)) (c_uint64 (buf_ptr buf))"
  | (ok) buf where "DeviceBuffer E (librmm_calls w) nbytes (Some stream) = Inr buf"
      and "\<not> dict_contains (store w (mgr_allocations self)) (c_uint64 (buf_ptr buf))"
  by (cases "DeviceBuffer E (librmm_calls w) nbytes (Some stream)") auto

lemma memalloc_Inr_D:
  assumes "memalloc E self nbytes stream w = (Inr mem, w')"
  obtains buf where "DeviceBuffer E (librmm_calls w) nbytes (Some stream) = Inr buf"
    and "\<not> dict_contains (store w (mgr_allocations self)) (c_uint64 (buf_ptr buf))"
proof (cases rule: memalloc_cases[where E = E and w = w and nbytes = nbytes
    and stream = stream and self = self])
  case (fail e)
  with assms show ?thesis by (simp add: memalloc_fail)
next
  case (duplicate buf)
  with assms show ?thesis by (simp add: memalloc_duplicate)
next
  case (ok buf)
  then show ?thesis using that by blast
qed

lemma registry_keys_memalloc:
  "set (dict_keys (registry self (snd (memalloc E self nbytes stream w)))) =
     (case fst (memalloc E self nbytes stream w) of
        Inl e \<Rightarrow> set (dict_keys (registry self w))
      | Inr mem \<Rightarrow> insert (mp_pointer mem) (set (dict_keys (registry self w))))"
proof (cases rule: memalloc_cases[where E = E and w = w and nbytes = nbytes
    and stream = stream and self = self])
  case (fail e)
  then show ?thesis by (simp add: memalloc_fail registry_def)
next
  case (duplicate buf)
  then show ?thesis by (simp add: memalloc_duplicate registry_def)
next
  case (ok buf)
  then show ?thesis
    by (simp add: memalloc_ok registry_def dict_keys_def)
qed

lemma registry_keys_finalizer:
  "set (dict_keys (registry self w)) - {h} \<subseteq>
   set (dict_keys (registry self (snd (finalizer (make_finalizer h (mgr_allocations self)) w))))"
  by (auto simp: finalizer_def make_finalizer_def registry_def dict_delitem_def Let_def
        dict_keys_def AList.delete_eq split: if_splits)

lemma outstanding_step_tracked:
  assumes "L \<subseteq> set (dict_keys (registry self w))"
  shows "outstanding_step E self w L e \<subseteq>
         set (dict_keys (registry self (exec_event E self w e)))"
proof (cases e)
  case (Ev_memalloc nbytes stream)
  then show ?thesis using assms
    by (auto simp: registry_keys_memalloc split: sum.splits)
next
  case (Ev_finalizer h)
  then show ?thesis using assms registry_keys_finalizer[of self w h] by auto
next
  case Ev_reset
  then show ?thesis by simp
qed

lemma outstanding_tracked:
  "L \<subseteq> set (dict_keys (registry self w)) \<Longrightarrow>
   outstanding E self w L es \<subseteq> set (dict_keys (registry self (run E self w es)))"
proof (induction es arbitrary: w L)
  case Nil
  then show ?case by simp
next
  case (Cons e es)
  from Cons.prems have "outstanding_step E self w L e \<subseteq>
      set (dict_keys (registry self (exec_event E self w e)))"
    by (rule outstanding_step_tracked)
  from Cons.IH[OF this] show ?case by simp
qed

section \<open>The finalizer and the registry\<close>

text \<open>
  Claim C1, as amended. The finalizer guards against an empty dict only. It raises
  \<open>KeyError\<close> exactly when the dict is not empty and does not hold the handle, and
  raises nothing otherwise. Called after \<open>reset()\<close> has emptied the dict it does
  nothing and raises nothing. Called a second time it changes nothing; it raises
  nothing when the dict is empty by then, and raises \<open>KeyError\<close> when another handle
  is still registered.
\<close>

theorem finalizer_raises_iff_handle_missing:
  "fst (finalizer f w) =
     (if store w (fin_allocations f) \<noteq> [] \<and>
         \<not> dict_contains (store w (fin_allocations f)) (fin_handle f)
      then Inl (KeyError (fin_handle f)) else Inr ())
   \<and> finalizer (make_finalizer h (mgr_allocations self)) (reset self w) = (Inr (), reset self w)
   \<and> finalizer f (snd (finalizer f w)) =
       (if store (snd (finalizer f w)) (fin_allocations f) = [] then Inr ()
        else Inl (KeyError (fin_handle f)), snd (finalizer f w))"
  using finalizer_outcome[of f w] finalizer_after_reset[of h self w] finalizer_second[of f w]
  by simp

theorem finalizer_raises_iff_handle_missing_witness:
  "fst (finalizer (make_finalizer 4096 0) world_two) = Inr ()
   \<and> finalizer (make_finalizer 4096 0) (reset manager0 world_two) = (Inr (), reset manager0 world_two)
   \<and> fst (finalizer (make_finalizer 8192 0)
        (snd (finalizer (make_finalizer 8192 0) (snd (finalizer (make_finalizer 4096 0) world_two)))))
       = Inr ()"
  using finalizer_raises_iff_handle_missing[of "make_finalizer 4096 0" world_two 4096 manager0]
    finalizer_raises_iff_handle_missing[of "make_finalizer 8192 0"
      "snd (finalizer (make_finalizer 4096 0) world_two)" 8192 manager0]
  by (simp add: finalizer_def make_finalizer_def world_two_def world0_def empty_store_def
      dict_delitem_def dict_contains_def dict_keys_def manager0_def reset_def)

text \<open>
  The claim C1 as stated fails: with the handles 4096 and 8192 registered, the second
  call of the finalizer of 4096 raises \<open>KeyError\<close>.
\<close>

theorem finalizer_second_call_raises:
  "fst (finalizer (make_finalizer 4096 0)
      (snd (finalizer (make_finalizer 4096 0) world_two))) = Inl (KeyError 4096)"
  by (simp add: finalizer_def make_finalizer_def world_two_def world0_def empty_store_def
      dict_delitem_def dict_contains_def dict_keys_def)

text \<open>
  Claim C3. When the handle is a key of the registry, one call of its finalizer raises
  nothing and leaves a registry without the handle; the other keys stay. The
  finalizer that \<open>memalloc\<close> attaches to the pointer it returns is such a finalizer, for
  the handle of that pointer.
\<close>

theorem finalizer_removes_handle:
  "(dict_contains (registry self w) h \<longrightarrow>
      fst (finalizer (make_finalizer h (mgr_allocations self)) w) = Inr () \<and>
      \<not> dict_contains
          (registry self (snd (finalizer (make_finalizer h (mgr_allocations self)) w))) h \<and>
      (\<forall>k. k \<noteq> h \<longrightarrow>
         dict_contains
           (registry self (snd (finalizer (make_finalizer h (mgr_allocations self)) w))) k =
         dict_contains (registry self w) k))
   \<and> (memalloc E self nbytes stream w = (Inr mem, w') \<longrightarrow>
      fst (finalizer (mp_finalizer mem) w') = Inr () \<and>
      \<not> dict_contains (registry self (snd (finalizer (mp_finalizer mem) w'))) (mp_pointer mem))"
proof (intro conjI impI)
  let ?f = "make_finalizer h (mgr_allocations self)"
  assume "dict_contains (registry self w) h"
  then have p: "dict_contains (store w (fin_allocations ?f)) (fin_handle ?f)"
    by (simp add: registry_def)
  have r: "finalizer ?f w =
      (Inr (), w\<lparr>store := (store w)(mgr_allocations self :=
                   AList.delete h (store w (mgr_allocations self)))\<rparr>)"
    using finalizer_present[OF p] by simp
  show "fst (finalizer ?f w) = Inr ()" by (simp add: r)
  show "\<not> dict_contains (registry self (snd (finalizer ?f w))) h"
    by (simp add: r registry_def dict_contains_delete)
  show "\<forall>k. k \<noteq> h \<longrightarrow>
      dict_contains (registry self (snd (finalizer ?f w))) k = dict_contains (registry self w) k"
    by (simp add: r registry_def dict_contains_delete)
next
  assume a: "memalloc E self nbytes stream w = (Inr mem, w')"
  then obtain buf where b: "DeviceBuffer E (librmm_calls w) nbytes (Some stream) = Inr buf"
    and n: "\<not> dict_contains (store w (mgr_allocations self)) (c_uint64 (buf_ptr buf))"
    by (rule memalloc_Inr_D)
  let ?h = "c_uint64 (buf_ptr buf)"
  from memalloc_ok[OF b n] a
  have m: "mp_finalizer mem = make_finalizer ?h (mgr_allocations self)"
    and mp: "mp_pointer mem = ?h"
    and w': "store w' (mgr_allocations self) = store w (mgr_allocations self) @ [(?h, buf)]"
    by auto
  have p: "dict_contains (store w' (fin_allocations (mp_finalizer mem)))
      (fin_handle (mp_finalizer mem))"
    by (simp add: m w' dict_contains_append)
  have r: "finalizer (mp_finalizer mem) w' =
      (Inr (), w'\<lparr>store := (store w')(mgr_allocations self :=
                   AList.delete ?h (store w' (mgr_allocations self)))\<rparr>)"
    using finalizer_present[OF p] by (simp add: m)
  show "fst (finalizer (mp_finalizer mem) w') = Inr ()" by (simp add: r)
  show "\<not> dict_contains (registry self (snd (finalizer (mp_finalizer mem) w'))) (mp_pointer mem)"
    by (simp add: r registry_def mp dict_contains_delete)
qed

theorem finalizer_removes_handle_witness:
  "dict_contains (registry manager0 world_two) 4096
   \<and> fst (finalizer (make_finalizer 4096 0) world_two) = Inr ()
   \<and> \<not> dict_contains (registry manager0 (snd (finalizer (make_finalizer 4096 0) world_two))) 4096
   \<and> dict_contains (registry manager0 (snd (finalizer (make_finalizer 4096 0) world_two))) 8192
   \<and> fst (memalloc env0 manager0 16 0 world0) \<noteq> Inl (AllocationError ''out of memory'')
   \<and> \<not> dict_contains (registry manager0
         (snd (finalizer (mp_finalizer (projr (fst (memalloc env0 manager0 16 0 world0))))
                (snd (memalloc env0 manager0 16 0 world0))))) 4096"
proof -
  have c: "dict_contains (registry manager0 world_two) 4096"
    by (simp add: registry_def manager0_def world_two_def world0_def empty_store_def
        dict_contains_def dict_keys_def)
  have m: "memalloc env0 manager0 16 0 world0 =
      (Inr (projr (fst (memalloc env0 manager0 16 0 world0))), snd (memalloc env0 manager0 16 0 world0))"
    by (simp add: memalloc_def env0_def pool_DeviceBuffer_def world0_def Let_def
        dict_setitem_def dict_contains_def dict_keys_def empty_store_def)
  have k: "mp_pointer (projr (fst (memalloc env0 manager0 16 0 world0))) = 4096"
    by (simp add: memalloc_def env0_def pool_DeviceBuffer_def world0_def Let_def
        dict_setitem_def dict_contains_def dict_keys_def empty_store_def c_uint64_def)
  have c2: "dict_contains (registry manager0 world_two) 8192"
    by (simp add: registry_def manager0_def world_two_def world0_def empty_store_def
        dict_contains_def dict_keys_def)
  note t1 = finalizer_removes_handle[where self = manager0 and w = world_two and h = 4096,
      THEN conjunct1, rule_format, OF c]
  note t2 = finalizer_removes_handle[where E = env0 and self = manager0 and nbytes = 16
      and stream = 0 and w = world0, THEN conjunct2, rule_format, OF m]
  have f: "fst (memalloc env0 manager0 16 0 world0) \<noteq> Inl (AllocationError ''out of memory'')"
    using m by (metis Inl_Inr_False fst_conv)
  have g: "dict_contains (registry manager0 (snd (finalizer (make_finalizer 4096 0) world_two))) 8192"
    using t1 c2 by (simp add: manager0_def)
  from c t1 t2 f g k show ?thesis by (simp add: manager0_def)
qed

section \<open>Allocation\<close>

text \<open>
  Claim C2. When \<open>memalloc\<close> returns a pointer, the state it returns with already
  holds the handle of that pointer in the registry of the manager, mapped to the
  buffer. The handle is the 64-bit value of the buffer's \<open>ptr\<close>, which is \<open>ptr\<close> itself
  for an address in range, and the finalizer of the pointer is bound to that handle
  and that registry. No key is lost by an allocation. An allocation whose handle is
  already registered raises and returns no pointer, so it is not one that succeeds.
  Over any run of allocations, finalizer calls and resets, the handles allocated and
  not yet released are keys of the registry.
\<close>

theorem memalloc_registers_handle:
  "(memalloc E self nbytes stream w = (Inr mem, w') \<longrightarrow>
      dict_contains (registry self w') (mp_pointer mem) \<and>
      (\<exists>buf. DeviceBuffer E (librmm_calls w) nbytes (Some stream) = Inr buf \<and>
         mp_pointer mem = c_uint64 (buf_ptr buf) \<and>
         map_of (registry self w') (mp_pointer mem) = Some buf \<and>
         (0 \<le> buf_ptr buf \<and> buf_ptr buf < 2 ^ 64 \<longrightarrow> mp_pointer mem = buf_ptr buf)) \<and>
      mp_finalizer mem = make_finalizer (mp_pointer mem) (mgr_allocations self) \<and>
      (\<forall>k. dict_contains (registry self w) k \<longrightarrow> dict_contains (registry self w') k))
   \<and> (L \<subseteq> set (dict_keys (registry self w)) \<longrightarrow>
        outstanding E self w L es \<subseteq> set (dict_keys (registry self (run E self w es))))"
proof (intro conjI impI)
  assume a: "memalloc E self nbytes stream w = (Inr mem, w')"
  then obtain buf where b: "DeviceBuffer E (librmm_calls w) nbytes (Some stream) = Inr buf"
    and n: "\<not> dict_contains (store w (mgr_allocations self)) (c_uint64 (buf_ptr buf))"
    by (rule memalloc_Inr_D)
  let ?h = "c_uint64 (buf_ptr buf)"
  from memalloc_ok[OF b n] a
  have m: "mp_finalizer mem = make_finalizer ?h (mgr_allocations self)"
    and mp: "mp_pointer mem = ?h"
    and w': "store w' (mgr_allocations self) = store w (mgr_allocations self) @ [(?h, buf)]"
    by auto
  show "dict_contains (registry self w') (mp_pointer mem)"
    by (simp add: registry_def w' mp dict_contains_append)
  show "\<exists>buf. DeviceBuffer E (librmm_calls w) nbytes (Some stream) = Inr buf \<and>
         mp_pointer mem = c_uint64 (buf_ptr buf) \<and>
         map_of (registry self w') (mp_pointer mem) = Some buf \<and>
         (0 \<le> buf_ptr buf \<and> buf_ptr buf < 2 ^ 64 \<longrightarrow> mp_pointer mem = buf_ptr buf)"
    using b map_of_append_new[OF n, of buf]
    by (simp add: registry_def w' mp c_uint64_id del: map_of_append)
  show "mp_finalizer mem = make_finalizer (mp_pointer mem) (mgr_allocations self)"
    by (simp add: m mp)
  show "\<forall>k. dict_contains (registry self w) k \<longrightarrow> dict_contains (registry self w') k"
    by (simp add: registry_def w' dict_contains_append)
next
  assume "L \<subseteq> set (dict_keys (registry self w))"
  then show "outstanding E self w L es \<subseteq> set (dict_keys (registry self (run E self w es)))"
    by (rule outstanding_tracked)
qed

theorem memalloc_registers_handle_witness:
  "memalloc env0 manager0 16 0 world0 =
     (Inr (projr (fst (memalloc env0 manager0 16 0 world0))), snd (memalloc env0 manager0 16 0 world0))
   \<and> mp_pointer (projr (fst (memalloc env0 manager0 16 0 world0))) = 4096
   \<and> dict_contains (registry manager0 (snd (memalloc env0 manager0 16 0 world0))) 4096
   \<and> {} \<subseteq> set (dict_keys (registry manager0 world0))
   \<and> outstanding env0 manager0 world0 {} [Ev_memalloc 16 0, Ev_memalloc 32 0, Ev_finalizer 4096]
       = {8192}
   \<and> 8192 \<in> set (dict_keys (registry manager0
         (run env0 manager0 world0 [Ev_memalloc 16 0, Ev_memalloc 32 0, Ev_finalizer 4096])))"
proof -
  have m: "memalloc env0 manager0 16 0 world0 =
      (Inr (projr (fst (memalloc env0 manager0 16 0 world0))), snd (memalloc env0 manager0 16 0 world0))"
    by (simp add: memalloc_def env0_def pool_DeviceBuffer_def world0_def Let_def
        dict_setitem_def dict_contains_def dict_keys_def empty_store_def)
  have k: "mp_pointer (projr (fst (memalloc env0 manager0 16 0 world0))) = 4096"
    by (simp add: memalloc_def env0_def pool_DeviceBuffer_def world0_def Let_def
        dict_setitem_def dict_contains_def dict_keys_def empty_store_def c_uint64_def)
  have e: "{} \<subseteq> set (dict_keys (registry manager0 world0))"
    by simp
  have o: "outstanding env0 manager0 world0 {}
      [Ev_memalloc 16 0, Ev_memalloc 32 0, Ev_finalizer 4096] = {8192}"
    by (auto simp: memalloc_def env0_def pool_DeviceBuffer_def world0_def Let_def
        dict_setitem_def dict_contains_def dict_keys_def empty_store_def c_uint64_def)
  note t1 = memalloc_registers_handle[where E = env0 and self = manager0 and nbytes = 16
      and stream = 0 and w = world0, THEN conjunct1, rule_format, OF m]
  note t2 = memalloc_registers_handle[where E = env0 and self = manager0 and w = world0
      and L = "{}" and es = "[Ev_memalloc 16 0, Ev_memalloc 32 0, Ev_finalizer 4096]",
      THEN conjunct2, rule_format, OF e]
  from t2 o have "8192 \<in> set (dict_keys (registry manager0
         (run env0 manager0 world0 [Ev_memalloc 16 0, Ev_memalloc 32 0, Ev_finalizer 4096])))"
    by simp
  with m k e o t1 show ?thesis by simp
qed

text \<open>
  Claim C7. When the constructor of \<open>DeviceBuffer\<close> raises, \<open>memalloc\<close> raises that
  error at once and every dict of the store, the registry of the manager among them,
  is what it was before the call: nothing is inserted.
\<close>

theorem memalloc_failure_keeps_registry:
  "DeviceBuffer E (librmm_calls w) nbytes (Some stream) = Inl e \<Longrightarrow>
   fst (memalloc E self nbytes stream w) = Inl e \<and>
   store (snd (memalloc E self nbytes stream w)) = store w \<and>
   registry self (snd (memalloc E self nbytes stream w)) = registry self w"
  by (simp add: memalloc_fail registry_def)

theorem memalloc_failure_keeps_registry_witness:
  "DeviceBuffer env0 (librmm_calls world_two) 20000 (Some 0) = Inl (AllocationError ''out of memory'')
   \<and> fst (memalloc env0 manager0 20000 0 world_two) = Inl (AllocationError ''out of memory'')
   \<and> registry manager0 (snd (memalloc env0 manager0 20000 0 world_two)) =
       [(4096, buf_a), (8192, buf_b)]"
proof -
  have d: "DeviceBuffer env0 (librmm_calls world_two) 20000 (Some 0) =
      Inl (AllocationError ''out of memory'')"
    by (simp add: env0_def pool_DeviceBuffer_def)
  have r: "registry manager0 world_two = [(4096, buf_a), (8192, buf_b)]"
    by (simp add: registry_def manager0_def world_two_def world0_def)
  from memalloc_failure_keeps_registry[OF d, of manager0] d r show ?thesis by simp
qed

section \<open>Initialisation\<close>

lemma initialize_call:
  "snd (initialize E pool_allocator managed_memory initial_pool_size devices logging w) =
     w\<lparr>librmm_calls := librmm_calls w @
       [Call_rmm_initialize
          ((if pool_allocator then PoolAllocation else 0) OR
           (if managed_memory then CudaManagedMemory else 0))
          (if \<not> pool_allocator then 0
           else case initial_pool_size of None \<Rightarrow> 0 | Some n \<Rightarrow> if n = 0 then 1 else n)
          (case devices of Devices_None \<Rightarrow> [0] | Devices_int d \<Rightarrow> [d] | Devices_list ds \<Rightarrow> ds)
          logging]\<rparr>"
  by (cases initial_pool_size) (simp_all add: initialize_def Let_def)

lemma finalize_call:
  "snd (finalize E w) = w\<lparr>librmm_calls := librmm_calls w @ [Call_rmm_finalize]\<rparr>"
  by (simp add: finalize_def)

lemma reinitialize_unfold:
  "reinitialize E pool_allocator managed_memory initial_pool_size devices logging w =
     initialize E pool_allocator managed_memory initial_pool_size devices logging
       (snd (finalize E w))"
  by (simp add: reinitialize_def finalize_def)

text \<open>
  Claim C4. Without the pool allocator the size passed to \<open>rmm_initialize\<close> is 0
  whatever \<open>initial_pool_size\<close> is. With the pool allocator, \<open>None\<close> gives 0, the value
  that asks for the default size, and an explicit 0 gives 1, so the two calls differ.
\<close>

theorem initialize_pool_size:
  "(\<exists>mode devs.
      snd (initialize E False managed_memory initial_pool_size devices logging w) =
        w\<lparr>librmm_calls := librmm_calls w @ [Call_rmm_initialize mode 0 devs logging]\<rparr>)
   \<and> (\<exists>mode devs.
      snd (initialize E True managed_memory None devices logging w) =
        w\<lparr>librmm_calls := librmm_calls w @ [Call_rmm_initialize mode 0 devs logging]\<rparr>
      \<and> snd (initialize E True managed_memory (Some 0) devices logging w) =
        w\<lparr>librmm_calls := librmm_calls w @ [Call_rmm_initialize mode 1 devs logging]\<rparr>)
   \<and> librmm_calls (snd (initialize E True managed_memory (Some 0) devices logging w)) \<noteq>
       librmm_calls (snd (initialize E True managed_memory None devices logging w))"
  by (auto simp: initialize_call)

theorem initialize_pool_size_witness:
  "snd (initialize env0 False False (Some 4096) Devices_None False world0) =
     world0\<lparr>librmm_calls := [Call_rmm_initialize 0 0 [0] False]\<rparr>
   \<and> snd (initialize env0 True False None Devices_None False world0) =
     world0\<lparr>librmm_calls := [Call_rmm_initialize 1 0 [0] False]\<rparr>
   \<and> snd (initialize env0 True False (Some 0) Devices_None False world0) =
     world0\<lparr>librmm_calls := [Call_rmm_initialize 1 1 [0] False]\<rparr>"
  using initialize_pool_size[of env0 False "Some 4096" Devices_None False world0]
  by (simp add: initialize_call world0_def PoolAllocation_def)

text \<open>
  Claim C5. \<open>reinitialize\<close> is \<open>_finalize\<close> followed by \<open>_initialize\<close> with the caller's
  five arguments: it adds to the calls made into \<open>rmm._lib\<close> exactly one
  \<open>rmm_finalize\<close> and then exactly one \<open>rmm_initialize\<close>, the call that \<open>_initialize\<close>
  makes for these arguments from any state, and changes nothing else.
\<close>

theorem reinitialize_finalize_then_initialize:
  "reinitialize E pool_allocator managed_memory initial_pool_size devices logging w =
     initialize E pool_allocator managed_memory initial_pool_size devices logging
       (snd (finalize E w))
   \<and> snd (finalize E w) = w\<lparr>librmm_calls := librmm_calls w @ [Call_rmm_finalize]\<rparr>
   \<and> (\<exists>c. snd (reinitialize E pool_allocator managed_memory initial_pool_size devices logging w) =
          w\<lparr>librmm_calls := librmm_calls w @ [Call_rmm_finalize, c]\<rparr>
        \<and> c \<noteq> Call_rmm_finalize
        \<and> librmm_calls
            (snd (initialize E pool_allocator managed_memory initial_pool_size devices logging v)) =
          librmm_calls v @ [c])"
  by (auto simp: reinitialize_unfold initialize_call finalize_call)

theorem reinitialize_finalize_then_initialize_witness:
  "snd (reinitialize env0 True True (Some 0) (Devices_int 3) True world0) =
     world0\<lparr>librmm_calls := [Call_rmm_finalize, Call_rmm_initialize 3 1 [3] True]\<rparr>
   \<and> snd (initialize env0 True True (Some 0) (Devices_int 3) True world0) =
     world0\<lparr>librmm_calls := [Call_rmm_initialize 3 1 [3] True]\<rparr>"
  using reinitialize_finalize_then_initialize[of env0 True True "Some 0" "Devices_int 3" True world0 world0]
  by (simp add: initialize_call finalize_call world0_def PoolAllocation_def CudaManagedMemory_def)

text \<open>
  Claim C6, as amended. An int \<open>d\<close> is passed to \<open>rmm_initialize\<close> as \<open>[d]\<close>, \<open>None\<close> as
  \<open>[0]\<close>, and a list as it is. The list passed is empty exactly when the argument is
  the empty list, so it is non-empty for an int, for \<open>None\<close> and for a non-empty list.
\<close>

theorem initialize_devices:
  "\<exists>mode size devs.
      snd (initialize E pool_allocator managed_memory initial_pool_size devices logging w) =
        w\<lparr>librmm_calls := librmm_calls w @ [Call_rmm_initialize mode size devs logging]\<rparr>
      \<and> devs = (case devices of Devices_None \<Rightarrow> [0] | Devices_int d \<Rightarrow> [d] | Devices_list ds \<Rightarrow> ds)
      \<and> (devs = [] \<longleftrightarrow> devices = Devices_list [])"
  by (cases devices) (auto simp: initialize_call)

theorem initialize_devices_witness:
  "snd (initialize env0 True False None (Devices_int 3) False world0) =
     world0\<lparr>librmm_calls := [Call_rmm_initialize 1 0 [3] False]\<rparr>
   \<and> snd (initialize env0 True False None Devices_None False world0) =
     world0\<lparr>librmm_calls := [Call_rmm_initialize 1 0 [0] False]\<rparr>
   \<and> snd (initialize env0 True False None (Devices_list [1, 2]) False world0) =
     world0\<lparr>librmm_calls := [Call_rmm_initialize 1 0 [1, 2] False]\<rparr>"
  using initialize_devices[of env0 True False None "Devices_int 3" False world0]
    initialize_devices[of env0 True False None Devices_None False world0]
    initialize_devices[of env0 True False None "Devices_list [1, 2]" False world0]
  by (simp add: initialize_call world0_def PoolAllocation_def)

text \<open>
  The claim C6 as stated fails for the empty list, which is passed on as it is: the
  devices given to \<open>rmm_initialize\<close> are then empty.
\<close>

theorem initialize_empty_devices:
  "snd (initialize env0 False False None (Devices_list []) False world0) =
     world0\<lparr>librmm_calls := [Call_rmm_initialize 0 0 [] False]\<rparr>"
  by (simp add: initialize_call world0_def)

section \<open>IPC export\<close>

text \<open>
  Claim C8. For every memory object and stream the record returned by
  \<open>get_ipc_handle\<close> carries the 64 bytes the driver wrote for the owner's handle, the
  size of the memory object, the identity of the current device, and as offset what
  the pool allocator reports for the device pointer of the memory object on that
  stream. When the allocator reports the distance from the start of the owning block,
  the offset is 0 for a pointer at the start of its block and the positive distance
  for a pointer after the start.
\<close>

theorem get_ipc_handle_record:
  "length (ipc_handle_bytes (get_ipc_handle E self memory stream)) = 64
   \<and> ipc_handle_bytes (get_ipc_handle E self memory stream) =
       map (cuIpcGetMemHandle E (mem_owner_handle memory)) [0..<64]
   \<and> ipc_base (get_ipc_handle E self memory stream) = memory
   \<and> ipc_size (get_ipc_handle E self memory stream) = mem_size memory
   \<and> ipc_source_info (get_ipc_handle E self memory stream) = get_device_identity E
   \<and> ipc_offset (get_ipc_handle E self memory stream) =
       rmm_getallocationoffset E (mem_device_ctypes_pointer memory) stream
   \<and> (rmm_getallocationoffset E = allocation_offset block_start \<longrightarrow>
        (mem_device_ctypes_pointer memory = block_start (mem_device_ctypes_pointer memory) \<longrightarrow>
           ipc_offset (get_ipc_handle E self memory stream) = 0) \<and>
        (block_start (mem_device_ctypes_pointer memory) < mem_device_ctypes_pointer memory \<longrightarrow>
           0 < ipc_offset (get_ipc_handle E self memory stream) \<and>
           ipc_offset (get_ipc_handle E self memory stream) =
             mem_device_ctypes_pointer memory - block_start (mem_device_ctypes_pointer memory)))"
  by (simp add: get_ipc_handle_def Let_def allocation_offset_def)

theorem get_ipc_handle_record_witness:
  "rmm_getallocationoffset env0 = allocation_offset pool_block_start
   \<and> ipc_offset (get_ipc_handle env0 manager0
        \<lparr>mem_owner_handle = 4096, mem_device_ctypes_pointer = 4096, mem_size = 256\<rparr> 0) = 0
   \<and> ipc_offset (get_ipc_handle env0 manager0
        \<lparr>mem_owner_handle = 4096, mem_device_ctypes_pointer = 4352, mem_size = 256\<rparr> 0) = 256
   \<and> ipc_size (get_ipc_handle env0 manager0
        \<lparr>mem_owner_handle = 4096, mem_device_ctypes_pointer = 4352, mem_size = 256\<rparr> 0) = 256
   \<and> length (ipc_handle_bytes (get_ipc_handle env0 manager0
        \<lparr>mem_owner_handle = 4096, mem_device_ctypes_pointer = 4352, mem_size = 256\<rparr> 0)) = 64"
proof -
  have e: "rmm_getallocationoffset env0 = allocation_offset pool_block_start"
    by (simp add: env0_def)
  note t1 = get_ipc_handle_record[where E = env0 and self = manager0 and stream = 0
      and block_start = pool_block_start
      and memory = "\<lparr>mem_owner_handle = 4096, mem_device_ctypes_pointer = 4096, mem_size = 256\<rparr>"]
  note t2 = get_ipc_handle_record[where E = env0 and self = manager0 and stream = 0
      and block_start = pool_block_start
      and memory = "\<lparr>mem_owner_handle = 4096, mem_device_ctypes_pointer = 4352, mem_size = 256\<rparr>"]
  from e t1 t2 show ?thesis by (simp add: pool_block_start_def)
qed

section \<open>Optional integrations\<close>

text \<open>
  Claim C9. Without numba, \<open>use_rmm_for_numba\<close> raises \<open>RuntimeError\<close> and leaves the
  state as it is. Without cupy, \<open>rmm_cupy_allocator\<close> raises \<open>ModuleNotFoundError\<close>
  before it asks the pool for anything and leaves the state as it is.
\<close>

theorem missing_framework_raises:
  "(\<not> numba_available E \<longrightarrow>
      use_rmm_for_numba E w = (Inl (RuntimeError ''Numba is not available''), w))
   \<and> (\<not> cupy_available E \<longrightarrow>
      rmm_cupy_allocator E nbytes w = (Inl (ModuleNotFoundError no_module_cupy), w))"
  by (simp add: use_rmm_for_numba_def rmm_cupy_allocator_def)

theorem missing_framework_raises_witness:
  "\<not> numba_available env_bare \<and> \<not> cupy_available env_bare
   \<and> use_rmm_for_numba env_bare world_two = (Inl (RuntimeError ''Numba is not available''), world_two)
   \<and> rmm_cupy_allocator env_bare 16 world_two =
       (Inl (ModuleNotFoundError no_module_cupy), world_two)
   \<and> cuda_memory_manager (snd (use_rmm_for_numba env0 world_two)) = RMMNumbaManager"
proof -
  have n: "\<not> numba_available env_bare" and c: "\<not> cupy_available env_bare"
    by (simp_all add: env_bare_def)
  have m: "cuda_memory_manager (snd (use_rmm_for_numba env0 world_two)) = RMMNumbaManager"
    by (simp add: use_rmm_for_numba_def env0_def)
  from missing_framework_raises[of env_bare world_two 16] n c m show ?thesis by simp
qed

text \<open>
  Claim C10. With cupy present and a buffer obtained from the pool,
  \<open>rmm_cupy_allocator\<close> returns a pointer at offset 0 into an unowned memory object
  that has the buffer's \<open>ptr\<close> and \<open>size\<close> and the buffer as owner; its device id is -1
  when the buffer's pointer is not zero, and the current device id when it is zero.
\<close>

theorem rmm_cupy_allocator_pointer:
  "cupy_available E \<Longrightarrow> DeviceBuffer E (librmm_calls w) nbytes None = Inr buf \<Longrightarrow>
   fst (rmm_cupy_allocator E nbytes w) =
     Inr \<lparr>cmp_mem = \<lparr>um_ptr = buf_ptr buf, um_size = buf_size buf, um_owner = buf,
                      um_device_id = (if buf_ptr buf \<noteq> 0 then - 1 else get_device_id E)\<rparr>,
          cmp_offset = 0\<rparr>
   \<and> snd (rmm_cupy_allocator E nbytes w) =
       w\<lparr>librmm_calls := librmm_calls w @ [Call_DeviceBuffer nbytes None]\<rparr>"
  by (simp add: rmm_cupy_allocator_def Let_def)

theorem rmm_cupy_allocator_pointer_witness:
  "cupy_available env0
   \<and> DeviceBuffer env0 (librmm_calls world0) 16 None = Inr \<lparr>buf_ptr = 4096, buf_size = 16\<rparr>
   \<and> um_device_id (cmp_mem (projr (fst (rmm_cupy_allocator env0 16 world0)))) = - 1
   \<and> um_ptr (cmp_mem (projr (fst (rmm_cupy_allocator env0 16 world0)))) = 4096
   \<and> cupy_available env_null
   \<and> DeviceBuffer env_null (librmm_calls world0) 0 None = Inr \<lparr>buf_ptr = 0, buf_size = 0\<rparr>
   \<and> um_device_id (cmp_mem (projr (fst (rmm_cupy_allocator env_null 0 world0)))) = 3
   \<and> cmp_offset (projr (fst (rmm_cupy_allocator env_null 0 world0))) = 0"
proof -
  have a: "cupy_available env0" and b: "cupy_available env_null"
    by (simp_all add: env0_def env_null_def)
  have d: "DeviceBuffer env0 (librmm_calls world0) 16 None = Inr \<lparr>buf_ptr = 4096, buf_size = 16\<rparr>"
    by (simp add: env0_def pool_DeviceBuffer_def world0_def)
  have e: "DeviceBuffer env_null (librmm_calls world0) 0 None = Inr \<lparr>buf_ptr = 0, buf_size = 0\<rparr>"
    by (simp add: env_null_def null_DeviceBuffer_def)
  have g: "get_device_id env_null = 3"
    by (simp add: env_null_def)
  from rmm_cupy_allocator_pointer[OF a d] rmm_cupy_allocator_pointer[OF b e] a b d e g
  show ?thesis by simp
qed

end
